theory Spec2Isabelle
  imports Main "HOL-Library.Multiset"
begin

section \<open>The book service of \<open>main.py\<close>\<close>

text \<open>
  \<open>main.py\<close> is a FastAPI application with five routes over one SQLAlchemy table,
  \<open>books\<close>. The embedding has three layers, as the source has:
  \<^item> the table and the session calls the handlers make on it
    (\<open>db.query(Book).all()\<close>, \<open>db.query(Book).filter(Book.id == book_id).first()\<close>,
    \<open>db.add\<close>/\<open>db.commit\<close>, \<open>db.refresh\<close>, \<open>db.delete\<close>/\<open>db.commit\<close>);
  \<^item> the five handler functions, line by line;
  \<^item> the routing that FastAPI derives from the decorators and the parameter
    annotations: path and body validation first, then the handler, then the status code.

  Scope.
  \<^item> A Python \<open>int\<close> is an Isabelle \<open>int\<close>. A Python \<open>str\<close> is an Isabelle \<open>string\<close>,
    each \<open>char\<close> one character with a code point below 256, so that \<open>length\<close> is
    the number of characters; other characters are outside the model.
  \<^item> The columns are taken as the source declares them: \<open>Integer\<close> primary key,
    \<open>String(255)\<close>, \<open>nullable=False\<close>. The store is MySQL, as \<open>DATABASE_URL\<close> says, in
    its default strict mode: a value longer than its column is refused, unless the
    excess is spaces only, which a \<open>VARCHAR\<close> column cuts off in any mode.
  \<^item> Validation is that of Pydantic 1, the version whose interface the source uses
    (\<open>orm_mode\<close>): a field annotated \<open>str\<close> takes a number or a boolean and turns it
    into text; a body that is not an object is read with \<open>dict(body)\<close>.
  \<^item> The validators read and write integers as Python 3.11 does, with its limit of
    4300 digits.
  \<^item> A JSON number with a fraction or an exponent is carried as the text Python's
    \<open>str\<close> writes for it; its arithmetic is outside the model. So are the 32-bit
    range of a MySQL \<open>INT\<close>, connection failures and concurrent requests.
\<close>

subsection \<open>Data model\<close>

text \<open>
  \<open>class Book(Base)\<close>: a row of the table. The column names carry the suffix \<open>_col\<close>,
  since \<open>title\<close> and \<open>author\<close> are the fields of \<open>BookCreate\<close> below.
  \<open>nullable=False\<close>: the fields are plain strings, never \<open>None\<close>.
\<close>

record Book =
  id_col :: int
  title_col :: string
  author_col :: string

text \<open>\<open>class BookCreate(BaseModel)\<close>: the validated request body.\<close>

record BookCreate =
  title :: string
  author :: string

text \<open>\<open>class BookOut(BookCreate)\<close>: the response shape, the input fields and the id.\<close>

record BookOut = BookCreate +
  id_out :: int

text \<open>\<open>orm_mode = True\<close>: a \<open>BookOut\<close> is read off the attributes of a \<open>Book\<close>.\<close>

definition from_orm :: "Book \<Rightarrow> BookOut" where
  "from_orm b = \<lparr>title = title_col b, author = author_col b, id_out = id_col b\<rparr>"

subsection \<open>The table and the session\<close>

text \<open>The session calls of the source, in the order a request makes them.\<close>

datatype call =
  Query_all
  | Query_first int
  | Add_commit
  | Dirty_commit int
  | Delete_commit int
  | Refresh int

text \<open>
  The database as one request sees it: the rows of \<open>books\<close>, the table's AUTO_INCREMENT
  counter, and the session calls made so far.
\<close>

record database =
  books :: "Book list"
  auto_increment :: int
  calls :: "call list"

definition empty_database :: database where
  "empty_database = \<lparr>books = [], auto_increment = 1, calls = []\<rparr>"

text \<open>What can go wrong in a handler: the exception it raises itself, or one of the store.\<close>

datatype error =
  HTTPException int string
  | DataError
  | InvalidRequestError

definition ids :: "database \<Rightarrow> int list" where
  "ids db = map id_col (books db)"

text \<open>\<open>String(255)\<close>: the longest value a title or author column holds.\<close>

definition String_length :: nat where
  "String_length = 255"

definition fits :: "string \<Rightarrow> bool" where
  "fits s = (length s \<le> String_length)"

text \<open>
  What a \<open>VARCHAR(255)\<close> column of MySQL holds for a value: the value when it fits; the
  first 255 characters when all the others are spaces (cut off with a warning, in any
  SQL mode); nothing otherwise (error 1406, Data too long, in strict mode).
\<close>

definition store_string :: "string \<Rightarrow> string option" where
  "store_string s =
     (if fits s then Some s
      else if list_all (\<lambda>c. c = CHR '' '') (drop String_length s) then Some (take String_length s)
      else None)"

definition logged :: "call \<Rightarrow> database \<Rightarrow> database" where
  "logged c db = db\<lparr>calls := calls db @ [c]\<rparr>"

text \<open>\<open>db.query(Book).all()\<close>\<close>

definition query_all :: "database \<Rightarrow> Book list \<times> database" where
  "query_all db = (books db, logged Query_all db)"

text \<open>\<open>db.query(Book).filter(Book.id == book_id).first()\<close>: the first match, or \<open>None\<close>.\<close>

definition query_first :: "int \<Rightarrow> database \<Rightarrow> Book option \<times> database" where
  "query_first book_id db =
     (find (\<lambda>r. id_col r = book_id) (books db), logged (Query_first book_id) db)"

text \<open>
  \<open>db.add(db_book); db.commit()\<close> for a new \<open>Book(title=..., author=...)\<close>: the INSERT
  takes the next AUTO_INCREMENT value as the primary key, which is returned, and stores
  what the columns hold for the title and the author. A value that a column refuses
  fails the statement, and nothing is stored.
\<close>

definition add_commit :: "string \<Rightarrow> string \<Rightarrow> database \<Rightarrow> (error + int) \<times> database" where
  "add_commit t a db =
     (case (store_string t, store_string a) of
        (Some t', Some a') \<Rightarrow>
          (Inr (auto_increment db),
           logged Add_commit
             (db\<lparr>books := books db @ [\<lparr>id_col = auto_increment db, title_col = t', author_col = a'\<rparr>],
                 auto_increment := auto_increment db + 1\<rparr>))
      | _ \<Rightarrow> (Inl DataError, logged Add_commit db))"

text \<open>
  \<open>db.commit()\<close> after the attributes of a loaded \<open>db_book\<close> were assigned: the UPDATE
  sets title and author of the rows with the object's primary key to what the columns
  hold for the assigned values, or fails when a column refuses its value.
\<close>

definition dirty_commit :: "Book \<Rightarrow> database \<Rightarrow> (error + unit) \<times> database" where
  "dirty_commit db_book db =
     (case (store_string (title_col db_book), store_string (author_col db_book)) of
        (Some t', Some a') \<Rightarrow>
          (Inr (),
           logged (Dirty_commit (id_col db_book))
             (db\<lparr>books := map (\<lambda>r. if id_col r = id_col db_book
                                    then r\<lparr>title_col := t', author_col := a'\<rparr>
                                    else r) (books db)\<rparr>))
      | _ \<Rightarrow> (Inl DataError, logged (Dirty_commit (id_col db_book)) db))"

text \<open>\<open>db.delete(db_book); db.commit()\<close>: the DELETE by primary key.\<close>

definition delete_commit :: "Book \<Rightarrow> database \<Rightarrow> database" where
  "delete_commit db_book db =
     logged (Delete_commit (id_col db_book))
       (db\<lparr>books := filter (\<lambda>r. id_col r \<noteq> id_col db_book) (books db)\<rparr>)"

text \<open>\<open>db.refresh(db_book)\<close>: the row is read again by its primary key.\<close>

definition refresh :: "int \<Rightarrow> database \<Rightarrow> (error + Book) \<times> database" where
  "refresh pk db =
     (case find (\<lambda>r. id_col r = pk) (books db) of
        None \<Rightarrow> (Inl InvalidRequestError, logged (Refresh pk) db)
      | Some r \<Rightarrow> (Inr r, logged (Refresh pk) db))"

subsection \<open>Python's \<open>str\<close> of an integer\<close>

definition digit_char :: "nat \<Rightarrow> char" where
  "digit_char d = ''0123456789'' ! d"

fun str_nat :: "nat \<Rightarrow> string" where
  "str_nat n = (if n < 10 then [digit_char n] else str_nat (n div 10) @ [digit_char (n mod 10)])"

declare str_nat.simps [simp del]

definition str_int :: "int \<Rightarrow> string" where
  "str_int i = (if i < 0 then CHR ''-'' # str_nat (nat (- i)) else str_nat (nat i))"

text \<open>
  \<open>sys.int_info.default_max_str_digits\<close>: Python reads and writes no integer of more
  digits.
\<close>

definition max_str_digits :: nat where
  "max_str_digits = 4300"

subsection \<open>The handlers\<close>

text \<open>\<open>def get_books(db)\<close>\<close>

definition get_books :: "database \<Rightarrow> (error + Book list) \<times> database" where
  "get_books db = (case query_all db of (bs, db1) \<Rightarrow> (Inr bs, db1))"

text \<open>\<open>def get_book(book_id, db)\<close>\<close>

definition get_book :: "int \<Rightarrow> database \<Rightarrow> (error + Book) \<times> database" where
  "get_book book_id db =
     (case query_first book_id db of
        (None, db1) \<Rightarrow> (Inl (HTTPException 404 ''Book not found''), db1)
      | (Some book, db1) \<Rightarrow> (Inr book, db1))"

text \<open>\<open>def create_book(book, db)\<close>\<close>

definition create_book :: "BookCreate \<Rightarrow> database \<Rightarrow> (error + Book) \<times> database" where
  "create_book book db =
     (case add_commit (title book) (author book) db of
        (Inl e, db1) \<Rightarrow> (Inl e, db1)
      | (Inr pk, db1) \<Rightarrow> refresh pk db1)"

text \<open>\<open>def update_book(book_id, updated_book, db)\<close>\<close>

definition update_book :: "int \<Rightarrow> BookCreate \<Rightarrow> database \<Rightarrow> (error + Book) \<times> database" where
  "update_book book_id updated_book db =
     (case query_first book_id db of
        (None, db1) \<Rightarrow> (Inl (HTTPException 404 ''Book not found''), db1)
      | (Some db_book, db1) \<Rightarrow>
          (case dirty_commit (db_book\<lparr>title_col := title updated_book,
                                       author_col := author updated_book\<rparr>) db1 of
             (Inl e, db2) \<Rightarrow> (Inl e, db2)
           | (Inr _, db2) \<Rightarrow> refresh (id_col db_book) db2))"

text \<open>\<open>def delete_book(book_id, db)\<close>; the result is the value of the \<open>message\<close> key.\<close>

definition delete_book :: "int \<Rightarrow> database \<Rightarrow> (error + string) \<times> database" where
  "delete_book book_id db =
     (case query_first book_id db of
        (None, db1) \<Rightarrow> (Inl (HTTPException 404 ''Book not found''), db1)
      | (Some db_book, db1) \<Rightarrow>
          (Inr (''Book(id='' @ str_int book_id @ '') deleted succesfully''),
           delete_commit db_book db1))"

subsection \<open>Requests, validation and responses\<close>

text \<open>
  A parsed JSON body. \<open>JNull\<close> also stands for a request without a body; \<open>JFloat\<close>
  carries the text Python's \<open>str\<close> writes for the parsed \<open>float\<close>.
\<close>

datatype json =
  JNull
  | JBool bool
  | JNum int
  | JFloat string
  | JStr string
  | JArr "json list"
  | JObj "(string \<times> json) list"

text \<open>A key of a JSON object; of a repeated key Python's parser keeps the last value.\<close>

definition json_get :: "(string \<times> json) list \<Rightarrow> string \<Rightarrow> json option" where
  "json_get kvs k = map_of (rev kvs) k"

text \<open>
  A field annotated \<open>str\<close>, as Pydantic 1 validates it: a string is taken as it is; an
  \<open>int\<close>, a \<open>float\<close> and a \<open>bool\<close> (an \<open>int\<close> in Python) are replaced by their
  \<open>str\<close>; \<open>None\<close>, a list and a dict are refused. Python writes no integer of more than
  4300 digits.
\<close>

fun str_validator :: "json \<Rightarrow> string option" where
  "str_validator (JStr s) = Some s"
| "str_validator (JNum i) =
     (if length (str_nat (nat \<bar>i\<bar>)) \<le> max_str_digits then Some (str_int i) else None)"
| "str_validator (JFloat s) = Some s"
| "str_validator (JBool b) = Some (if b then ''True'' else ''False'')"
| "str_validator JNull = None"
| "str_validator (JArr _) = None"
| "str_validator (JObj _) = None"

text \<open>
  The keys of a parsed object in the order of a Python \<open>dict\<close>: each key once, at the
  place where it first stands.
\<close>

definition dict_keys :: "(string \<times> json) list \<Rightarrow> string list" where
  "dict_keys kvs = rev (remdups (rev (map fst kvs)))"

text \<open>
  An item of the sequence given to \<open>dict\<close>: it must be iterable and yield exactly two
  values, the key and the value. A list yields its elements, a string its characters,
  a dict its keys.
\<close>

fun dict_item :: "json \<Rightarrow> (json \<times> json) option" where
  "dict_item (JArr [k, v]) = Some (k, v)"
| "dict_item (JStr [c, d]) = Some (JStr [c], JStr [d])"
| "dict_item (JObj kvs) =
     (case dict_keys kvs of [k, v] \<Rightarrow> Some (JStr k, JStr v) | _ \<Rightarrow> None)"
| "dict_item _ = None"

text \<open>A keyword of a call must be a string.\<close>

fun keyword :: "json \<times> json \<Rightarrow> (string \<times> json) option" where
  "keyword (JStr k, v) = Some (k, v)"
| "keyword _ = None"

text \<open>
  \<open>BookCreate.validate(value)\<close>: the keyword arguments \<open>cls(**value)\<close> is called with.
  A dict gives its own items. Any other value goes through \<open>dict(value)\<close>: a list gives
  the pairs its items yield, all of them or none; the empty string gives no pair; every
  other value is refused.
\<close>

definition body_kwargs :: "json \<Rightarrow> (string \<times> json) list option" where
  "body_kwargs body =
     (case body of
        JObj kvs \<Rightarrow> Some kvs
      | JArr items \<Rightarrow>
          (case those (map dict_item items) of
             None \<Rightarrow> None
           | Some pairs \<Rightarrow> those (map keyword pairs))
      | JStr s \<Rightarrow> (if s = [] then Some [] else None)
      | _ \<Rightarrow> None)"

text \<open>
  A body parameter annotated \<open>BookCreate\<close>: the required fields \<open>title\<close> and \<open>author\<close>,
  both \<open>str\<close>, of the keyword arguments; other keys are ignored.
\<close>

definition BookCreate_validate :: "json \<Rightarrow> BookCreate option" where
  "BookCreate_validate body =
     (case body_kwargs body of
        None \<Rightarrow> None
      | Some kvs \<Rightarrow>
          (case json_get kvs ''title'' of
             None \<Rightarrow> None
           | Some tv \<Rightarrow>
               (case json_get kvs ''author'' of
                  None \<Rightarrow> None
                | Some av \<Rightarrow>
                    (case (str_validator tv, str_validator av) of
                       (Some t, Some a) \<Rightarrow> Some \<lparr>title = t, author = a\<rparr>
                     | _ \<Rightarrow> None))))"

text \<open>The five routes; a path parameter arrives as the text of its path segment.\<close>

datatype request =
  GET_books
  | GET_book string
  | POST_books json
  | PUT_book string json
  | DELETE_book string

datatype content =
  Books_json "BookOut list"
  | Book_json BookOut
  | Message_json string
  | Detail_json string
  | Validation_errors
  | Internal_server_error

record response =
  status_code :: int
  content :: content

text \<open>A request that fails validation: \<open>RequestValidationError\<close>, answered with 422.\<close>

definition unprocessable :: response where
  "unprocessable = \<lparr>status_code = 422, content = Validation_errors\<rparr>"

text \<open>
  The answer to a handler's outcome. No route declares a \<open>status_code\<close>, so a returned
  value is sent with 200; an \<open>HTTPException\<close> with its own status and detail; any other
  exception with 500.
\<close>

fun respond :: "('a \<Rightarrow> content) \<Rightarrow> error + 'a \<Rightarrow> response" where
  "respond ser (Inr x) = \<lparr>status_code = 200, content = ser x\<rparr>"
| "respond ser (Inl (HTTPException s d)) = \<lparr>status_code = s, content = Detail_json d\<rparr>"
| "respond ser (Inl _) = \<lparr>status_code = 500, content = Internal_server_error\<rparr>"

text \<open>
  The application. \<open>int_validator\<close> is the framework's conversion of a path segment to
  \<open>book_id: int\<close>. It is a parameter: what is proved of a request that reaches its
  handler holds for any conversion; \<open>py_int\<close> below is the one Pydantic 1 makes.
  A handler runs only when all its parameters validate.
\<close>

definition app :: "(string \<Rightarrow> int option) \<Rightarrow> request \<Rightarrow> database \<Rightarrow> response \<times> database" where
  "app int_validator req db =
     (case req of
        GET_books \<Rightarrow>
          (case get_books db of (r, db1) \<Rightarrow> (respond (\<lambda>bs. Books_json (map from_orm bs)) r, db1))
      | GET_book seg \<Rightarrow>
          (case int_validator seg of
             None \<Rightarrow> (unprocessable, db)
           | Some book_id \<Rightarrow>
               (case get_book book_id db of (r, db1) \<Rightarrow> (respond (\<lambda>b. Book_json (from_orm b)) r, db1)))
      | POST_books body \<Rightarrow>
          (case BookCreate_validate body of
             None \<Rightarrow> (unprocessable, db)
           | Some book \<Rightarrow>
               (case create_book book db of (r, db1) \<Rightarrow> (respond (\<lambda>b. Book_json (from_orm b)) r, db1)))
      | PUT_book seg body \<Rightarrow>
          (case (int_validator seg, BookCreate_validate body) of
             (Some book_id, Some updated_book) \<Rightarrow>
               (case update_book book_id updated_book db of
                  (r, db1) \<Rightarrow> (respond (\<lambda>b. Book_json (from_orm b)) r, db1))
           | _ \<Rightarrow> (unprocessable, db))
      | DELETE_book seg \<Rightarrow>
          (case int_validator seg of
             None \<Rightarrow> (unprocessable, db)
           | Some book_id \<Rightarrow>
               (case delete_book book_id db of (r, db1) \<Rightarrow> (respond Message_json r, db1))))"

subsection \<open>Well-formed tables\<close>

text \<open>
  \<open>primary_key=True\<close>: no two rows share an id, and the AUTO_INCREMENT counter is above
  every id in use. \<open>String(255)\<close>: every stored title and author fits its column.
\<close>

definition table_ok :: "database \<Rightarrow> bool" where
  "table_ok db =
     (distinct (ids db) \<and>
      list_all (\<lambda>r. id_col r < auto_increment db \<and> fits (title_col r) \<and> fits (author_col r))
        (books db))"

subsection \<open>Sample data\<close>

text \<open>The table after the first book of the scenario was created, with no call made yet.\<close>

definition dune_database :: database where
  "dune_database =
     \<lparr>books = [\<lparr>id_col = 1, title_col = ''Dune'', author_col = ''Herbert''\<rparr>],
      auto_increment = 2, calls = []\<rparr>"

definition dune_body :: json where
  "dune_body = JObj [(''title'', JStr ''Dune''), (''author'', JStr ''Herbert'')]"

text \<open>A path validator that accepts the segment \<open>1\<close> alone.\<close>

definition segment_1 :: "string \<Rightarrow> int option" where
  "segment_1 seg = (if seg = ''1'' then Some 1 else None)"

subsection \<open>Reading a decimal numeral\<close>

text \<open>
  The value of a numeral, to say what \<open>str_int\<close> writes: Python's \<open>int\<close> of a string of
  digits with an optional minus sign.
\<close>

definition digit_val :: "char \<Rightarrow> nat" where
  "digit_val c = of_char c - 48"

definition nat_of_digits :: "string \<Rightarrow> nat" where
  "nat_of_digits s = foldl (\<lambda>n c. 10 * n + digit_val c) 0 s"

fun int_of_numeral :: "string \<Rightarrow> int" where
  "int_of_numeral [] = 0"
| "int_of_numeral (c # cs) =
     (if c = CHR ''-'' then - int (nat_of_digits cs) else int (nat_of_digits (c # cs)))"

subsection \<open>The path parameter\<close>

text \<open>
  \<open>book_id: int\<close>: Pydantic 1 validates the text of the path segment with Python's
  \<open>int(v)\<close>. Python skips white space at both ends (tab to carriage return, space,
  and, of the characters below 256, NEL and the no-break space), takes one sign, and
  reads digits, with single underscores between digits only, and no more than 4300
  digits. Pydantic 1.10 refuses, before it calls \<open>int\<close>, a text of more than 4300
  characters; the model has Python's limit only, so it refuses no text that Pydantic
  accepts.
\<close>

definition is_space :: "char \<Rightarrow> bool" where
  "is_space c = ((of_char c :: nat) \<in> {9, 10, 11, 12, 13, 32, 133, 160})"

definition is_digit :: "char \<Rightarrow> bool" where
  "is_digit c = (48 \<le> (of_char c :: nat) \<and> (of_char c :: nat) \<le> 57)"

text \<open>
  The scan of the digits, one character at a time: \<open>us\<close> says that a digit must come
  next (at the start and after an underscore), \<open>n\<close> is the value and \<open>k\<close> the number of
  the digits read. The scan ends at the end of the text or at white space that lasts
  to the end.
\<close>

fun scan :: "bool \<Rightarrow> nat \<Rightarrow> nat \<Rightarrow> string \<Rightarrow> (nat \<times> nat) option" where
  "scan us n k [] = (if us then None else Some (n, k))"
| "scan us n k (c # cs) =
     (if is_digit c then scan False (10 * n + digit_val c) (Suc k) cs
      else if us then None
      else if c = CHR ''_'' then scan True n k cs
      else if list_all is_space (c # cs) then Some (n, k)
      else None)"

definition py_int :: "string \<Rightarrow> int option" where
  "py_int v =
     (case dropWhile is_space v of
        [] \<Rightarrow> None
      | c # cs \<Rightarrow>
          (case scan True 0 0 (if c = CHR ''-'' \<or> c = CHR ''+'' then cs else c # cs) of
             None \<Rightarrow> None
           | Some (n, k) \<Rightarrow>
               if k \<le> max_str_digits
               then Some (if c = CHR ''-'' then - int n else int n)
               else None))"

subsection \<open>Malformed requests, in the words of the specification\<close>

text \<open>
  A text parses as an integer when, without the white space at its ends and without
  one leading sign, it consists of groups of digits, none of them empty, with one
  underscore between two groups, and has at most 4300 digits.
\<close>

definition rstrip :: "string \<Rightarrow> string" where
  "rstrip s = rev (dropWhile is_space (rev s))"

definition strip :: "string \<Rightarrow> string" where
  "strip s = rstrip (dropWhile is_space s)"

definition unsigned :: "string \<Rightarrow> string" where
  "unsigned s = (case s of [] \<Rightarrow> [] | c # cs \<Rightarrow> if c = CHR ''-'' \<or> c = CHR ''+'' then cs else s)"

fun split_underscore :: "string \<Rightarrow> string list" where
  "split_underscore [] = [[]]"
| "split_underscore (c # cs) =
     (if c = CHR ''_'' then [] # split_underscore cs
      else (case split_underscore cs of [] \<Rightarrow> [[c]] | g # gs \<Rightarrow> (c # g) # gs))"

definition groups_ok :: "string \<Rightarrow> bool" where
  "groups_ok u = list_all (\<lambda>g. g \<noteq> [] \<and> list_all is_digit g) (split_underscore u)"

definition integer_text :: "string \<Rightarrow> bool" where
  "integer_text s =
     (groups_ok (unsigned (strip s)) \<and> length (filter is_digit s) \<le> max_str_digits)"

text \<open>What may follow a digit: as \<open>groups_ok\<close>, but the first group may be empty.\<close>

definition more_ok :: "string \<Rightarrow> bool" where
  "more_ok u =
     (case split_underscore u of
        [] \<Rightarrow> False
      | g # gs \<Rightarrow> list_all is_digit g \<and> list_all (\<lambda>g. g \<noteq> [] \<and> list_all is_digit g) gs)"

text \<open>A path segment: the route \<open>/books/{book_id}\<close> matches one or more characters, no slash.\<close>

definition path_segment :: "string \<Rightarrow> bool" where
  "path_segment seg = (seg \<noteq> [] \<and> CHR ''/'' \<notin> set seg)"

text \<open>
  The body gives no text for the key \<open>k\<close>: the key is missing from what the body gives
  (also when the body gives nothing at all), or its value is null, an array or an
  object.
\<close>

definition gives_no_text :: "json \<Rightarrow> string \<Rightarrow> bool" where
  "gives_no_text body k =
     (case body_kwargs body of
        None \<Rightarrow> True
      | Some kvs \<Rightarrow>
          (case json_get kvs k of
             None \<Rightarrow> True
           | Some JNull \<Rightarrow> True
           | Some (JArr _) \<Rightarrow> True
           | Some (JObj _) \<Rightarrow> True
           | Some _ \<Rightarrow> False))"

text \<open>
  A request is malformed when its path id does not parse as an integer, or its body
  gives no text for \<open>title\<close> or for \<open>author\<close>.
\<close>

definition malformed :: "request \<Rightarrow> bool" where
  "malformed req =
     (case req of
        GET_books \<Rightarrow> False
      | GET_book seg \<Rightarrow> path_segment seg \<and> \<not> integer_text seg
      | POST_books body \<Rightarrow> gives_no_text body ''title'' \<or> gives_no_text body ''author''
      | PUT_book seg body \<Rightarrow>
          path_segment seg
          \<and> (\<not> integer_text seg \<or> gives_no_text body ''title'' \<or> gives_no_text body ''author'')
      | DELETE_book seg \<Rightarrow> path_segment seg \<and> \<not> integer_text seg)"

section \<open>Basic facts\<close>

subsection \<open>The session calls\<close>

lemma fst_query_first [simp]: "fst (query_first i db) = find (\<lambda>r. id_col r = i) (books db)"
  by (simp add: query_first_def)

lemma books_logged [simp]: "books (logged c db) = books db"
  and auto_increment_logged [simp]: "auto_increment (logged c db) = auto_increment db"
  and calls_logged [simp]: "calls (logged c db) = calls db @ [c]"
  by (simp_all add: logged_def)

lemma ids_logged [simp]: "ids (logged c db) = ids db"
  by (simp add: ids_def)

lemma table_ok_logged [simp]: "table_ok (logged c db) = table_ok db"
  by (simp add: table_ok_def)

lemma find_fresh:
  "list_all (\<lambda>r. id_col r < n) bs \<Longrightarrow> find (\<lambda>r. id_col r = n) (bs @ [\<lparr>id_col = n, title_col = t, author_col = a\<rparr>])
     = Some \<lparr>id_col = n, title_col = t, author_col = a\<rparr>"
  by (induction bs) auto

lemma find_map_assign:
  "find (\<lambda>r. id_col r = i)
     (map (\<lambda>r. if id_col r = i then r\<lparr>title_col := t, author_col := a\<rparr> else r) bs)
   = map_option (\<lambda>r. r\<lparr>title_col := t, author_col := a\<rparr>) (find (\<lambda>r. id_col r = i) bs)"
  by (induction bs) auto

lemma ids_map_assign:
  "map id_col (map (\<lambda>r. if id_col r = i then r\<lparr>title_col := t, author_col := a\<rparr> else r) bs)
   = map id_col bs"
  by (induction bs) auto

lemma find_id_col: "find (\<lambda>r. id_col r = i) bs = Some r \<Longrightarrow> id_col r = i \<and> r \<in> set bs"
  by (induction bs) (auto split: if_splits)

lemma find_filter_neq: "find (\<lambda>r. id_col r = i) (filter (\<lambda>r. id_col r \<noteq> i) bs) = None"
  by (induction bs) auto

lemma find_id_None: "book_id \<notin> set (map id_col bs) \<Longrightarrow> find (\<lambda>r. id_col r = book_id) bs = None"
  by (induction bs) auto

lemma find_id_Some:
  "book_id \<in> set (map id_col bs) \<Longrightarrow>
   \<exists>r. find (\<lambda>r. id_col r = book_id) bs = Some r \<and> r \<in> set bs \<and> id_col r = book_id"
  by (induction bs) auto

lemma id_col_assign:
  "id_col \<circ> (\<lambda>r. if id_col r = i then r\<lparr>title_col := t, author_col := a\<rparr> else r) = id_col"
  by (rule ext) simp

subsection \<open>What a column holds\<close>

lemma store_string_fits [simp]: "fits s \<Longrightarrow> store_string s = Some s"
  by (simp add: store_string_def)

lemma fits_store_string: "store_string s = Some s' \<Longrightarrow> fits s'"
  by (auto simp: store_string_def fits_def split: if_splits)

lemma store_string_256: "store_string (replicate 256 (CHR ''a'')) = None"
  by (simp add: store_string_def fits_def String_length_def)

lemma store_string_trailing_space:
  "store_string (replicate 255 (CHR ''a'') @ '' '') = Some (replicate 255 (CHR ''a''))"
  by (simp add: store_string_def fits_def String_length_def)

subsection \<open>The handlers, one equation each\<close>

lemma get_book_eq:
  "get_book i db = ((case find (\<lambda>r. id_col r = i) (books db) of
       None \<Rightarrow> Inl (HTTPException 404 ''Book not found'') | Some r \<Rightarrow> Inr r), logged (Query_first i) db)"
  by (simp add: get_book_def query_first_def split: option.splits)

lemma get_books_eq: "get_books db = (Inr (books db), logged Query_all db)"
  by (simp add: get_books_def query_all_def)

lemma create_book_stored:
  assumes "table_ok db" "store_string (title b) = Some t" "store_string (author b) = Some a"
  shows "create_book b db =
    (Inr \<lparr>id_col = auto_increment db, title_col = t, author_col = a\<rparr>,
     logged (Refresh (auto_increment db)) (logged Add_commit
       (db\<lparr>books := books db @ [\<lparr>id_col = auto_increment db, title_col = t, author_col = a\<rparr>],
           auto_increment := auto_increment db + 1\<rparr>)))"
proof -
  have "list_all (\<lambda>r. id_col r < auto_increment db) (books db)"
    using assms(1) by (auto simp: table_ok_def list_all_iff)
  from find_fresh [OF this] show ?thesis
    using assms(2,3) by (simp add: create_book_def add_commit_def refresh_def)
qed

lemma create_book_ok:
  assumes "table_ok db" "fits (title b)" "fits (author b)"
  shows "create_book b db =
    (Inr \<lparr>id_col = auto_increment db, title_col = title b, author_col = author b\<rparr>,
     logged (Refresh (auto_increment db)) (logged Add_commit
       (db\<lparr>books := books db @ [\<lparr>id_col = auto_increment db, title_col = title b, author_col = author b\<rparr>],
           auto_increment := auto_increment db + 1\<rparr>)))"
  using assms by (simp add: create_book_stored)

lemma create_book_refused:
  "store_string (title b) = None \<or> store_string (author b) = None \<Longrightarrow>
   create_book b db = (Inl DataError, logged Add_commit db)"
  by (auto simp: create_book_def add_commit_def split: option.splits)

lemma update_book_missing:
  "book_id \<notin> set (ids db) \<Longrightarrow>
   update_book book_id b2 db = (Inl (HTTPException 404 ''Book not found''), logged (Query_first book_id) db)"
  by (simp add: update_book_def query_first_def ids_def find_id_None)

lemma update_book_stored:
  assumes "find (\<lambda>r. id_col r = book_id) (books db) = Some r"
    and "store_string (title b2) = Some t" "store_string (author b2) = Some a"
  shows "update_book book_id b2 db =
    (Inr (r\<lparr>title_col := t, author_col := a\<rparr>),
     logged (Refresh book_id) (logged (Dirty_commit book_id) (logged (Query_first book_id)
       (db\<lparr>books := map (\<lambda>r. if id_col r = book_id
                               then r\<lparr>title_col := t, author_col := a\<rparr>
                               else r) (books db)\<rparr>))))"
proof -
  have i: "id_col r = book_id" using find_id_col [OF assms(1)] by simp
  show ?thesis
    using assms i
    by (simp add: update_book_def query_first_def dirty_commit_def refresh_def find_map_assign logged_def)
qed

lemma update_book_ok:
  assumes "find (\<lambda>r. id_col r = book_id) (books db) = Some r" "fits (title b2)" "fits (author b2)"
  shows "update_book book_id b2 db =
    (Inr (r\<lparr>title_col := title b2, author_col := author b2\<rparr>),
     logged (Refresh book_id) (logged (Dirty_commit book_id) (logged (Query_first book_id)
       (db\<lparr>books := map (\<lambda>r. if id_col r = book_id
                               then r\<lparr>title_col := title b2, author_col := author b2\<rparr>
                               else r) (books db)\<rparr>))))"
  using assms by (simp add: update_book_stored)

lemma update_book_refused:
  assumes "find (\<lambda>r. id_col r = book_id) (books db) = Some r"
    and "store_string (title b2) = None \<or> store_string (author b2) = None"
  shows "update_book book_id b2 db =
    (Inl DataError, logged (Dirty_commit book_id) (logged (Query_first book_id) db))"
proof -
  have i: "id_col r = book_id" using find_id_col [OF assms(1)] by simp
  show ?thesis
    using assms i
    by (auto simp: update_book_def query_first_def dirty_commit_def split: option.splits)
qed

lemma delete_book_missing:
  "book_id \<notin> set (ids db) \<Longrightarrow>
   delete_book book_id db = (Inl (HTTPException 404 ''Book not found''), logged (Query_first book_id) db)"
  by (simp add: delete_book_def query_first_def ids_def find_id_None)

lemma delete_book_ok:
  assumes "find (\<lambda>r. id_col r = book_id) (books db) = Some r"
  shows "delete_book book_id db =
    (Inr (''Book(id='' @ str_int book_id @ '') deleted succesfully''),
     logged (Delete_commit book_id) (logged (Query_first book_id)
       (db\<lparr>books := filter (\<lambda>r. id_col r \<noteq> book_id) (books db)\<rparr>)))"
proof -
  have i: "id_col r = book_id" using find_id_col [OF assms(1)] by simp
  show ?thesis
    using assms i by (simp add: delete_book_def query_first_def delete_commit_def logged_def)
qed

subsection \<open>Sample data and validation\<close>

lemma table_ok_empty: "table_ok empty_database"
  by (simp add: table_ok_def empty_database_def ids_def)

lemma table_ok_dune: "table_ok dune_database"
  by (simp add: table_ok_def dune_database_def ids_def fits_def String_length_def)

lemma empty_database_sel [simp]:
  "books empty_database = []" "auto_increment empty_database = 1" "calls empty_database = []"
  by (simp_all add: empty_database_def)

lemma dune_database_sel [simp]:
  "books dune_database = [\<lparr>id_col = 1, title_col = ''Dune'', author_col = ''Herbert''\<rparr>]"
  "auto_increment dune_database = 2" "calls dune_database = []"
  by (simp_all add: dune_database_def)

lemma validate_dune_body: "BookCreate_validate dune_body = Some \<lparr>title = ''Dune'', author = ''Herbert''\<rparr>"
  by (simp add: dune_body_def BookCreate_validate_def body_kwargs_def json_get_def)

lemma str_validator_None:
  "str_validator v = None \<Longrightarrow>
   v = JNull \<or> (\<exists>xs. v = JArr xs) \<or> (\<exists>kvs. v = JObj kvs)
   \<or> (\<exists>i. v = JNum i \<and> max_str_digits < length (str_nat (nat \<bar>i\<bar>)))"
  by (cases v) (auto split: if_splits)

lemma gives_no_text_validate:
  "gives_no_text body ''title'' \<or> gives_no_text body ''author'' \<Longrightarrow> BookCreate_validate body = None"
  by (auto simp: gives_no_text_def BookCreate_validate_def split: option.splits json.splits)

subsection \<open>The table stays well formed\<close>

lemma table_ok_create_book: "table_ok db \<Longrightarrow> table_ok (snd (create_book b db))"
proof (cases "store_string (title b) = None \<or> store_string (author b) = None")
  case True
  assume "table_ok db"
  with True show ?thesis by (simp add: create_book_refused)
next
  case False
  assume ok: "table_ok db"
  from False obtain t a where s: "store_string (title b) = Some t" "store_string (author b) = Some a"
    by auto
  from ok have "\<forall>r \<in> set (books db). id_col r < auto_increment db"
    by (auto simp: table_ok_def list_all_iff)
  then have "auto_increment db \<notin> id_col ` set (books db)" by auto
  with ok fits_store_string [OF s(1)] fits_store_string [OF s(2)] show ?thesis
    by (auto simp: create_book_stored [OF ok s] table_ok_def ids_def list_all_iff)
qed

lemma table_ok_assign:
  assumes "table_ok db" "fits t" "fits a"
  shows "table_ok (db\<lparr>books := map (\<lambda>r. if id_col r = i then r\<lparr>title_col := t, author_col := a\<rparr> else r)
                               (books db)\<rparr>)"
  using assms by (auto simp: table_ok_def ids_def id_col_assign list_all_iff)

lemma table_ok_update_book: "table_ok db \<Longrightarrow> table_ok (snd (update_book i b db))"
proof (cases "find (\<lambda>r. id_col r = i) (books db)")
  case None
  assume "table_ok db"
  with None show ?thesis
    by (simp add: update_book_def query_first_def)
next
  case (Some r)
  assume ok: "table_ok db"
  show ?thesis
  proof (cases "store_string (title b) = None \<or> store_string (author b) = None")
    case True
    then show ?thesis using ok by (simp add: update_book_refused [OF Some])
  next
    case False
    then obtain t a where s: "store_string (title b) = Some t" "store_string (author b) = Some a"
      by auto
    show ?thesis
      using table_ok_assign [OF ok fits_store_string [OF s(1)] fits_store_string [OF s(2)], of i]
      by (simp add: update_book_stored [OF Some s] table_ok_def ids_def)
  qed
qed

lemma table_ok_delete_book: "table_ok db \<Longrightarrow> table_ok (snd (delete_book i db))"
proof (cases "find (\<lambda>r. id_col r = i) (books db)")
  case None
  assume "table_ok db"
  with None show ?thesis
    by (simp add: delete_book_def query_first_def)
next
  case (Some r)
  assume ok: "table_ok db"
  then show ?thesis
    by (auto simp: delete_book_ok [OF Some] table_ok_def ids_def list_all_iff distinct_map_filter)
qed

lemma table_ok_app: "table_ok db \<Longrightarrow> table_ok (snd (app iv req db))"
proof (cases req)
  case GET_books
  assume "table_ok db"
  with GET_books show ?thesis by (simp add: app_def get_books_eq)
next
  case (GET_book seg)
  assume "table_ok db"
  with GET_book show ?thesis
    by (simp add: app_def get_book_eq split: option.splits)
next
  case (POST_books body)
  assume "table_ok db"
  with POST_books show ?thesis
    using table_ok_create_book [of db]
    by (simp add: app_def split: option.splits prod.splits) (metis snd_conv)
next
  case (PUT_book seg body)
  assume "table_ok db"
  with PUT_book show ?thesis
    using table_ok_update_book [of db]
    by (simp add: app_def split: option.splits prod.splits) (metis snd_conv)
next
  case (DELETE_book seg)
  assume "table_ok db"
  with DELETE_book show ?thesis
    using table_ok_delete_book [of db]
    by (simp add: app_def split: option.splits prod.splits) (metis snd_conv)
qed

subsection \<open>\<open>str_int\<close> writes the decimal numeral\<close>

lemma digit_val_digit_char: "d < 10 \<Longrightarrow> digit_val (digit_char d) = d"
proof -
  assume "d < 10"
  then have "d \<in> {0, 1, 2, 3, 4, 5, 6, 7, 8, 9}" by auto
  then show ?thesis
    by (auto simp: digit_val_def digit_char_def)
qed

lemma nat_of_digits_str_nat: "nat_of_digits (str_nat n) = n"
proof (induction n rule: str_nat.induct)
  case (1 n)
  show ?case
  proof (cases "n < 10")
    case True
    then show ?thesis
      by (simp add: str_nat.simps [of n] nat_of_digits_def digit_val_digit_char)
  next
    case False
    with 1 have "nat_of_digits (str_nat (n div 10)) = n div 10" by simp
    with False show ?thesis
      by (simp add: str_nat.simps [of n] nat_of_digits_def digit_val_digit_char)
  qed
qed

lemma str_nat_inj: "str_nat m = str_nat n \<Longrightarrow> m = n"
  using nat_of_digits_str_nat by metis

lemma digit_char_not_minus: "d < 10 \<Longrightarrow> digit_char d \<noteq> CHR ''-''"
proof -
  assume "d < 10"
  then have "d \<in> {0, 1, 2, 3, 4, 5, 6, 7, 8, 9}" by auto
  then show ?thesis
    by (auto simp: digit_char_def)
qed

lemma str_nat_Cons: "\<exists>c cs. str_nat n = c # cs \<and> c \<noteq> CHR ''-''"
proof (induction n rule: str_nat.induct)
  case (1 n)
  show ?case
  proof (cases "n < 10")
    case True
    then show ?thesis
      by (simp add: str_nat.simps [of n] digit_char_not_minus)
  next
    case False
    with 1 obtain c cs where "str_nat (n div 10) = c # cs" "c \<noteq> CHR ''-''" by auto
    with False show ?thesis
      by (simp add: str_nat.simps [of n])
  qed
qed

lemma int_of_numeral_str_int: "int_of_numeral (str_int i) = i"
proof (cases "i < 0")
  case True
  then show ?thesis
    by (simp add: str_int_def nat_of_digits_str_nat)
next
  case False
  obtain c cs where c: "str_nat (nat i) = c # cs" "c \<noteq> CHR ''-''"
    using str_nat_Cons by blast
  have "nat_of_digits (c # cs) = nat i"
    using nat_of_digits_str_nat [of "nat i"] c(1) by simp
  with False c show ?thesis
    by (simp add: str_int_def)
qed

subsection \<open>The scan of a path parameter accepts the integer texts\<close>

lemma space_not_digit: "is_space c \<Longrightarrow> \<not> is_digit c"
  by (auto simp: is_space_def is_digit_def)

lemma space_not_underscore: "is_space c \<Longrightarrow> c \<noteq> CHR ''_''"
  by (auto simp: is_space_def)

lemma digit_not_underscore: "is_digit c \<Longrightarrow> c \<noteq> CHR ''_''"
  by (auto simp: is_digit_def)

lemma sign_not_digit: "c = CHR ''-'' \<or> c = CHR ''+'' \<Longrightarrow> \<not> is_digit c"
  by (auto simp: is_digit_def)

lemma rstrip_Nil [simp]: "rstrip [] = []"
  by (simp add: rstrip_def)

lemma rstrip_Cons:
  "rstrip (c # cs) = (if list_all is_space (c # cs) then [] else c # rstrip cs)"
  by (auto simp: rstrip_def dropWhile_append list_all_iff)

lemma split_underscore_not_Nil: "split_underscore u \<noteq> []"
  by (induction u) (auto split: list.splits)

lemma groups_ok_Nil [simp]: "\<not> groups_ok []"
  by (simp add: groups_ok_def)

lemma more_ok_Nil [simp]: "more_ok []"
  by (simp add: more_ok_def)

lemma groups_ok_Cons: "groups_ok (c # cs) = (is_digit c \<and> more_ok cs)"
  using split_underscore_not_Nil [of cs]
  by (auto simp: groups_ok_def more_ok_def is_digit_def split: list.splits)

lemma more_ok_Cons:
  "more_ok (c # cs) = (if c = CHR ''_'' then groups_ok cs else is_digit c \<and> more_ok cs)"
  using split_underscore_not_Nil [of cs]
  by (auto simp: groups_ok_def more_ok_def split: list.splits)

lemma scan_accepts:
  "scan us n k cs \<noteq> None \<longleftrightarrow> (if us then groups_ok (rstrip cs) else more_ok (rstrip cs))"
proof (induction cs arbitrary: us n k)
  case Nil
  then show ?case by simp
next
  case (Cons c cs)
  show ?case
  proof (cases "is_digit c")
    case True
    then have "\<not> is_space c" "c \<noteq> CHR ''_''"
      using space_not_digit digit_not_underscore by blast+
    with True Cons show ?thesis
      by (simp add: rstrip_Cons groups_ok_Cons more_ok_Cons)
  next
    case False
    then show ?thesis
      using Cons [of True n k] space_not_underscore [of c]
      by (auto simp: rstrip_Cons groups_ok_Cons more_ok_Cons)
  qed
qed

lemma scan_count:
  "scan us n k cs = Some (n', k') \<Longrightarrow> k' = k + length (filter is_digit cs)"
proof (induction cs arbitrary: us n k)
  case Nil
  then show ?case by (simp split: if_splits)
next
  case (Cons c cs)
  show ?case
  proof (cases "is_digit c")
    case True
    with Cons.prems have "scan False (10 * n + digit_val c) (Suc k) cs = Some (n', k')" by simp
    from Cons.IH [OF this] True show ?thesis by simp
  next
    case False
    show ?thesis
    proof (cases "\<not> us \<and> c = CHR ''_''")
      case True
      with False Cons.prems have "scan True n k cs = Some (n', k')" by simp
      from Cons.IH [OF this] False show ?thesis by simp
    next
      case no_us: False
      with False Cons.prems have sp: "list_all is_space (c # cs)" and "k' = k"
        by (auto split: if_splits)
      from sp have "filter is_digit (c # cs) = []"
        by (auto simp: list_all_iff filter_empty_conv space_not_digit)
      with \<open>k' = k\<close> show ?thesis by simp
    qed
  qed
qed

lemma filter_digit_dropWhile: "filter is_digit (dropWhile is_space v) = filter is_digit v"
  by (induction v) (auto simp: space_not_digit)

lemma py_int_None_iff: "py_int v = None \<longleftrightarrow> \<not> integer_text v"
proof (cases "dropWhile is_space v")
  case Nil
  show ?thesis
    unfolding py_int_def integer_text_def strip_def unsigned_def Nil by simp
next
  case (Cons c cs)
  then have nsp: "\<not> is_space c" using hd_dropWhile [of is_space v] by (metis list.sel(1) list.distinct(1))
  let ?u = "if c = CHR ''-'' \<or> c = CHR ''+'' then cs else c # cs"
  have "strip v = rstrip (c # cs)"
    by (simp add: strip_def rstrip_def Cons)
  then have strip: "strip v = c # rstrip cs"
    using nsp by (simp add: rstrip_Cons)
  have un: "unsigned (strip v) = rstrip ?u"
    using nsp by (simp add: strip unsigned_def rstrip_Cons)
  have grp: "groups_ok (unsigned (strip v)) \<longleftrightarrow> scan True 0 0 ?u \<noteq> None"
  proof -
    have "scan True 0 0 ?u \<noteq> None \<longleftrightarrow> groups_ok (rstrip ?u)"
      using scan_accepts [of True 0 0 ?u] by (simp only: if_True)
    then show ?thesis by (simp only: un)
  qed
  have cnt: "scan True 0 0 ?u = Some (n, k) \<Longrightarrow> k = length (filter is_digit v)" for n k
  proof -
    assume "scan True 0 0 ?u = Some (n, k)"
    then have "k = length (filter is_digit ?u)" using scan_count by fastforce
    also have "filter is_digit ?u = filter is_digit (c # cs)"
      using sign_not_digit [of c] by auto
    also have "\<dots> = filter is_digit v"
      using filter_digit_dropWhile [of v] Cons by simp
    finally show ?thesis .
  qed
  show ?thesis
  proof (cases "scan True 0 0 ?u")
    case None
    with grp show ?thesis
      using Cons by (simp add: py_int_def integer_text_def groups_ok_def)
  next
    case (Some nk)
    obtain n k where nk: "nk = (n, k)" by (cases nk)
    with Some have k: "k = length (filter is_digit v)" using cnt by simp
    from Some grp have "groups_ok (unsigned (strip v))" by simp
    with Some nk k show ?thesis
      using Cons by (simp add: py_int_def integer_text_def groups_ok_def)
  qed
qed


lemma is_digit_digit_char: "d < 10 \<Longrightarrow> is_digit (digit_char d)"
proof -
  assume "d < 10"
  then have "d \<in> {0, 1, 2, 3, 4, 5, 6, 7, 8, 9}" by auto
  then show ?thesis
    by (auto simp: digit_char_def is_digit_def)
qed

lemma str_nat_digits: "list_all is_digit (str_nat n)"
proof (induction n rule: str_nat.induct)
  case (1 n)
  show ?case
  proof (cases "n < 10")
    case True
    then show ?thesis
      by (simp add: str_nat.simps [of n] is_digit_digit_char)
  next
    case False
    with 1 have "list_all is_digit (str_nat (n div 10))" by simp
    with False show ?thesis
      by (simp add: str_nat.simps [of n] is_digit_digit_char)
  qed
qed

lemma scan_digits:
  "list_all is_digit ds \<Longrightarrow> ds \<noteq> [] \<or> \<not> us \<Longrightarrow>
   scan us n k ds = Some (foldl (\<lambda>n c. 10 * n + digit_val c) n ds, k + length ds)"
  by (induction ds arbitrary: us n k) auto

lemma py_int_str_int:
  assumes "length (str_nat (nat \<bar>i\<bar>)) \<le> max_str_digits"
  shows "py_int (str_int i) = Some i"
proof -
  obtain c cs where c: "str_nat (nat \<bar>i\<bar>) = c # cs"
    using str_nat_Cons by blast
  have dig: "list_all is_digit (c # cs)"
    using str_nat_digits [of "nat \<bar>i\<bar>"] c by simp
  then have "is_digit c" by simp
  then have nsp: "\<not> is_space c" and nsg: "c \<noteq> CHR ''-''" "c \<noteq> CHR ''+''"
    using space_not_digit sign_not_digit by blast+
  have val: "foldl (\<lambda>n c. 10 * n + digit_val c) 0 (c # cs) = nat \<bar>i\<bar>"
    using nat_of_digits_str_nat [of "nat \<bar>i\<bar>"] c by (simp add: nat_of_digits_def)
  have sc: "scan True 0 0 (c # cs) = Some (nat \<bar>i\<bar>, length (c # cs))"
    using scan_digits [OF dig, of True 0 0] val by simp
  have minus: "\<not> is_space (CHR ''-'')"
    by (simp add: is_space_def)
  show ?thesis
  proof (cases "i < 0")
    case True
    then have "str_int i = CHR ''-'' # c # cs"
      using c by (simp add: str_int_def abs_if)
    with True show ?thesis
      using sc assms c minus by (simp add: py_int_def)
  next
    case False
    then have "str_int i = c # cs"
      using c by (simp add: str_int_def abs_if)
    with False show ?thesis
      using sc assms c nsp nsg by (simp add: py_int_def)
  qed
qed


section \<open>The claims\<close>

subsection \<open>C1: create, then get by id\<close>

text \<open>
  C1, amended. For every \<open>BookCreate\<close> whose title and author have at most 255
  characters, on a well-formed table, \<open>create_book\<close> returns a book, and \<open>get_book\<close> on
  the id of that book, in the state \<open>create_book\<close> leaves, returns the same book: the
  same id (the AUTO_INCREMENT value), title and author. The bound is needed: the columns
  are \<open>String(255)\<close>, and for a title of 256 letters \<open>create_book\<close> returns no book at
  all.
\<close>

theorem create_then_get:
  assumes "table_ok db" "fits (title b)" "fits (author b)"
  shows "\<exists>v db1. create_book b db = (Inr v, db1)
           \<and> fst (get_book (id_col v) db1) = Inr v
           \<and> from_orm v = \<lparr>title = title b, author = author b, id_out = auto_increment db\<rparr>"
proof -
  let ?v = "\<lparr>id_col = auto_increment db, title_col = title b, author_col = author b\<rparr>"
  have below: "list_all (\<lambda>r. id_col r < auto_increment db) (books db)"
    using assms(1) by (auto simp: table_ok_def list_all_iff)
  have "fst (get_book (id_col ?v) (snd (create_book b db))) = Inr ?v"
    by (simp add: create_book_ok [OF assms] get_book_eq find_fresh [OF below])
  then show ?thesis
    by (simp add: create_book_ok [OF assms] from_orm_def)
qed

text \<open>The scenario's first step: Dune by Herbert, created on the empty table, gets id 1.\<close>

theorem create_then_get_witness:
  "table_ok empty_database \<and> fits ''Dune'' \<and> fits ''Herbert''
   \<and> (\<exists>v db1. create_book \<lparr>title = ''Dune'', author = ''Herbert''\<rparr> empty_database = (Inr v, db1)
           \<and> fst (get_book (id_col v) db1) = Inr v
           \<and> from_orm v = \<lparr>title = ''Dune'', author = ''Herbert'', id_out = 1\<rparr>)"
  using create_then_get [of empty_database "\<lparr>title = ''Dune'', author = ''Herbert''\<rparr>"]
  by (simp add: table_ok_empty fits_def String_length_def)

text \<open>
  C1 as stated fails for a title of 256 characters: the body is valid, the table is well
  formed, and \<open>create_book\<close> ends in the store's error, with no row added and no id
  to read back.
\<close>

theorem create_too_long_counterexample:
  "table_ok empty_database
   \<and> create_book \<lparr>title = replicate 256 (CHR ''a''), author = ''Herbert''\<rparr> empty_database
       = (Inl DataError, logged Add_commit empty_database)"
  by (simp add: table_ok_empty create_book_def add_commit_def store_string_256 fits_def
        String_length_def)

subsection \<open>C2: an id without a row\<close>

text \<open>
  C2. For every id that no row carries, \<open>get_book\<close>, \<open>update_book\<close> and \<open>delete_book\<close>
  raise \<open>HTTPException(404, "Book not found")\<close>, the three routes answer with status 404
  and that detail, and \<open>update_book\<close> leaves the rows and the AUTO_INCREMENT counter as
  they were.
\<close>

theorem absent_id_not_found:
  assumes "book_id \<notin> set (ids db)"
    and "int_validator seg = Some book_id"
    and "BookCreate_validate body = Some b"
  shows "fst (get_book book_id db) = Inl (HTTPException 404 ''Book not found'')
       \<and> fst (update_book book_id b db) = Inl (HTTPException 404 ''Book not found'')
       \<and> fst (delete_book book_id db) = Inl (HTTPException 404 ''Book not found'')
       \<and> books (snd (update_book book_id b db)) = books db
       \<and> auto_increment (snd (update_book book_id b db)) = auto_increment db
       \<and> fst (app int_validator (GET_book seg) db)
           = \<lparr>status_code = 404, content = Detail_json ''Book not found''\<rparr>
       \<and> fst (app int_validator (PUT_book seg body) db)
           = \<lparr>status_code = 404, content = Detail_json ''Book not found''\<rparr>
       \<and> fst (app int_validator (DELETE_book seg) db)
           = \<lparr>status_code = 404, content = Detail_json ''Book not found''\<rparr>
       \<and> books (snd (app int_validator (PUT_book seg body) db)) = books db"
proof -
  have none: "find (\<lambda>r. id_col r = book_id) (books db) = None"
    using assms(1) by (simp add: ids_def find_id_None)
  have handlers:
    "get_book book_id db = (Inl (HTTPException 404 ''Book not found''), logged (Query_first book_id) db)"
    "update_book book_id b db = (Inl (HTTPException 404 ''Book not found''), logged (Query_first book_id) db)"
    "delete_book book_id db = (Inl (HTTPException 404 ''Book not found''), logged (Query_first book_id) db)"
    using assms(1) by (simp_all add: get_book_eq none update_book_missing delete_book_missing)
  show ?thesis
    using assms(2,3) by (simp add: handlers app_def)
qed

text \<open>The scenario's last step: id 9999 on the empty table.\<close>

theorem absent_id_not_found_witness:
  "9999 \<notin> set (ids empty_database)
   \<and> segment_1 ''1'' = Some 1
   \<and> BookCreate_validate dune_body = Some \<lparr>title = ''Dune'', author = ''Herbert''\<rparr>
   \<and> fst (get_book 9999 empty_database) = Inl (HTTPException 404 ''Book not found'')
   \<and> fst (app segment_1 (GET_book ''1'') empty_database)
       = \<lparr>status_code = 404, content = Detail_json ''Book not found''\<rparr>
   \<and> fst (app segment_1 (PUT_book ''1'' dune_body) empty_database)
       = \<lparr>status_code = 404, content = Detail_json ''Book not found''\<rparr>
   \<and> fst (app segment_1 (DELETE_book ''1'') empty_database)
       = \<lparr>status_code = 404, content = Detail_json ''Book not found''\<rparr>
   \<and> books (snd (app segment_1 (PUT_book ''1'' dune_body) empty_database)) = []"
  using absent_id_not_found [of 1 empty_database segment_1 "''1''" dune_body
          "\<lparr>title = ''Dune'', author = ''Herbert''\<rparr>"]
    absent_id_not_found [of 9999 empty_database "\<lambda>_. Some 9999" "''9999''" dune_body
          "\<lparr>title = ''Dune'', author = ''Herbert''\<rparr>"]
  by (simp add: ids_def segment_1_def validate_dune_body)

subsection \<open>C3: update of an existing id\<close>

text \<open>
  C3, amended. For every id that a row carries and every \<open>BookCreate\<close> whose title and
  author have at most 255 characters, \<open>update_book\<close> returns the book with the same id and
  with the title and author of the body, a following \<open>get_book\<close> on that id returns that
  book, and the ids of the table are as before. The bound is needed: for a title of
  256 letters the store refuses the UPDATE and the row keeps its old values.
\<close>

theorem update_existing:
  assumes "book_id \<in> set (ids db)" "fits (title b2)" "fits (author b2)"
  shows "\<exists>v db1. update_book book_id b2 db = (Inr v, db1)
           \<and> from_orm v = \<lparr>title = title b2, author = author b2, id_out = book_id\<rparr>
           \<and> fst (get_book book_id db1) = Inr v
           \<and> ids db1 = ids db"
proof -
  from assms(1) obtain r where r: "find (\<lambda>r. id_col r = book_id) (books db) = Some r"
    using find_id_Some [of book_id "books db"] by (auto simp: ids_def)
  then have i: "id_col r = book_id" using find_id_col by blast
  let ?v = "r\<lparr>title_col := title b2, author_col := author b2\<rparr>"
  have "fst (get_book book_id (snd (update_book book_id b2 db))) = Inr ?v"
    by (simp add: update_book_ok [OF r assms(2,3)] get_book_eq find_map_assign r)
  moreover have "ids (snd (update_book book_id b2 db)) = ids db"
    by (simp add: update_book_ok [OF r assms(2,3)] ids_def ids_map_assign)
  moreover have "from_orm ?v = \<lparr>title = title b2, author = author b2, id_out = book_id\<rparr>"
    using i by (simp add: from_orm_def)
  ultimately show ?thesis
    by (simp add: update_book_ok [OF r assms(2,3)])
qed

text \<open>The scenario's third step: the author of book 1 becomes F. Herbert.\<close>

theorem update_existing_witness:
  "1 \<in> set (ids dune_database) \<and> fits ''Dune'' \<and> fits ''F. Herbert''
   \<and> (\<exists>v db1. update_book 1 \<lparr>title = ''Dune'', author = ''F. Herbert''\<rparr> dune_database = (Inr v, db1)
           \<and> from_orm v = \<lparr>title = ''Dune'', author = ''F. Herbert'', id_out = 1\<rparr>
           \<and> fst (get_book 1 db1) = Inr v
           \<and> ids db1 = ids dune_database)"
  using update_existing [of 1 dune_database "\<lparr>title = ''Dune'', author = ''F. Herbert''\<rparr>"]
  by (simp add: ids_def fits_def String_length_def)

text \<open>
  C3 as stated fails for a title of 256 characters: id 1 is present, the update ends in
  the store's error, and the row still reads Dune by Herbert.
\<close>

theorem update_too_long_counterexample:
  "1 \<in> set (ids dune_database)
   \<and> fst (update_book 1 \<lparr>title = replicate 256 (CHR ''a''), author = ''Herbert''\<rparr> dune_database)
       = Inl DataError
   \<and> books (snd (update_book 1 \<lparr>title = replicate 256 (CHR ''a''), author = ''Herbert''\<rparr> dune_database))
       = [\<lparr>id_col = 1, title_col = ''Dune'', author_col = ''Herbert''\<rparr>]"
  by (simp add: ids_def update_book_def query_first_def dirty_commit_def store_string_256 fits_def
        String_length_def)

subsection \<open>C4: delete of an existing id\<close>

text \<open>
  C4. For every id that a row carries, \<open>delete_book\<close> returns its message, a following
  \<open>get_book\<close> on that id raises the 404, and a following \<open>get_books\<close> returns the rows
  of before without those of that id, so none of its books has the id.
\<close>

theorem delete_existing:
  assumes "book_id \<in> set (ids db)"
  shows "\<exists>msg db1. delete_book book_id db = (Inr msg, db1)
           \<and> fst (get_book book_id db1) = Inl (HTTPException 404 ''Book not found'')
           \<and> fst (get_books db1) = Inr (filter (\<lambda>r. id_col r \<noteq> book_id) (books db))
           \<and> book_id \<notin> set (ids db1)"
proof -
  from assms obtain r where r: "find (\<lambda>r. id_col r = book_id) (books db) = Some r"
    using find_id_Some [of book_id "books db"] by (auto simp: ids_def)
  have "book_id \<notin> id_col ` {x \<in> set (books db). id_col x \<noteq> book_id}"
    by auto
  then show ?thesis
    by (simp add: delete_book_ok [OF r] get_book_eq get_books_eq find_filter_neq ids_def)
qed

text \<open>The scenario's fourth step: book 1 is deleted and the table is empty again.\<close>

theorem delete_existing_witness:
  "1 \<in> set (ids dune_database)
   \<and> (\<exists>msg db1. delete_book 1 dune_database = (Inr msg, db1)
           \<and> fst (get_book 1 db1) = Inl (HTTPException 404 ''Book not found'')
           \<and> fst (get_books db1) = Inr []
           \<and> 1 \<notin> set (ids db1))"
  using delete_existing [of 1 dune_database]
  by (simp add: ids_def)

subsection \<open>C5: the list after a create\<close>

text \<open>
  C5, amended. On a well-formed table and for every \<open>BookCreate\<close> whose title and author
  have at most 255 characters: list, create, list again. The second list has one entry
  more than the first; as a multiset it is the first list and the created book, so every
  earlier entry is there unchanged; the created book has an id that no earlier entry has,
  and the title and author of the body. The bound is needed: for a title of 256 letters
  nothing is added.
\<close>

theorem list_after_create:
  assumes "table_ok db" "fits (title b)" "fits (author b)"
  shows "\<exists>before db0 v db1 after db2.
           get_books db = (Inr before, db0)
           \<and> create_book b db0 = (Inr v, db1)
           \<and> get_books db1 = (Inr after, db2)
           \<and> length after = length before + 1
           \<and> mset after = mset before + {#v#}
           \<and> id_col v \<notin> set (map id_col before)
           \<and> title_col v = title b \<and> author_col v = author b"
proof -
  let ?db0 = "logged Query_all db"
  have ok0: "table_ok ?db0" using assms(1) by simp
  have "\<forall>r \<in> set (books db). id_col r < auto_increment db"
    using assms(1) by (auto simp: table_ok_def list_all_iff)
  then have new: "auto_increment db \<notin> id_col ` set (books db)" by auto
  show ?thesis
    using new by (simp add: get_books_eq create_book_ok [OF ok0 assms(2,3)])
qed

theorem list_after_create_witness:
  "table_ok dune_database \<and> fits ''Emma'' \<and> fits ''Austen''
   \<and> (\<exists>before db0 v db1 after db2.
           get_books dune_database = (Inr before, db0)
           \<and> create_book \<lparr>title = ''Emma'', author = ''Austen''\<rparr> db0 = (Inr v, db1)
           \<and> get_books db1 = (Inr after, db2)
           \<and> length after = length before + 1
           \<and> mset after = mset before + {#v#}
           \<and> id_col v \<notin> set (map id_col before)
           \<and> title_col v = ''Emma'' \<and> author_col v = ''Austen'')"
  using list_after_create [of dune_database "\<lparr>title = ''Emma'', author = ''Austen''\<rparr>"]
  by (simp add: table_ok_dune fits_def String_length_def)

text \<open>
  C5 as stated fails for a title of 256 characters: the create ends in the store's error
  and the list after it is the list before it.
\<close>

theorem list_after_create_too_long_counterexample:
  "table_ok dune_database
   \<and> fst (get_books dune_database) = Inr [\<lparr>id_col = 1, title_col = ''Dune'', author_col = ''Herbert''\<rparr>]
   \<and> fst (create_book \<lparr>title = replicate 256 (CHR ''a''), author = ''Austen''\<rparr>
            (snd (get_books dune_database))) = Inl DataError
   \<and> fst (get_books (snd (create_book \<lparr>title = replicate 256 (CHR ''a''), author = ''Austen''\<rparr>
            (snd (get_books dune_database)))))
       = Inr [\<lparr>id_col = 1, title_col = ''Dune'', author_col = ''Herbert''\<rparr>]"
  by (simp add: table_ok_dune get_books_eq create_book_refused store_string_256)

subsection \<open>C6: what every stored book satisfies\<close>

text \<open>
  C6, amended. Every stored book has an id that no other row has and that is below the
  AUTO_INCREMENT counter, and a title and an author that are strings (never null) of at
  most 255 characters; \<open>create_book\<close>, \<open>update_book\<close>, \<open>delete_book\<close> and every request
  to the application keep the table so. Nothing requires a title or an author to be
  non-empty: \<open>BookCreate\<close> declares them \<open>str\<close> and no handler looks at their length.
\<close>

theorem table_ok_preserved:
  assumes "table_ok db"
  shows "table_ok (snd (create_book b db))
       \<and> table_ok (snd (update_book book_id b db))
       \<and> table_ok (snd (delete_book book_id db))
       \<and> table_ok (snd (app int_validator req db))"
  using assms
  by (simp add: table_ok_create_book table_ok_update_book table_ok_delete_book table_ok_app)

theorem table_ok_preserved_witness:
  "table_ok dune_database
   \<and> table_ok (snd (create_book \<lparr>title = '''', author = ''''\<rparr> dune_database))
   \<and> table_ok (snd (update_book 1 \<lparr>title = '''', author = ''''\<rparr> dune_database))
   \<and> table_ok (snd (delete_book 1 dune_database))
   \<and> table_ok (snd (app segment_1 (POST_books dune_body) dune_database))"
  using table_ok_preserved [of dune_database "\<lparr>title = '''', author = ''''\<rparr>" 1 segment_1
          "POST_books dune_body"]
  by (simp add: table_ok_dune)

text \<open>
  C6 as stated fails: a POST and a PUT whose title and author are the empty string are
  answered with 200, and the stored row has an empty title and an empty author.
\<close>

theorem empty_title_stored_counterexample:
  "table_ok empty_database
   \<and> app segment_1 (POST_books (JObj [(''title'', JStr ''''), (''author'', JStr '''')])) empty_database
     = (\<lparr>status_code = 200, content = Book_json \<lparr>title = '''', author = '''', id_out = 1\<rparr>\<rparr>,
        \<lparr>books = [\<lparr>id_col = 1, title_col = '''', author_col = ''''\<rparr>], auto_increment = 2,
           calls = [Add_commit, Refresh 1]\<rparr>)
   \<and> app segment_1 (PUT_book ''1'' (JObj [(''title'', JStr ''''), (''author'', JStr '''')])) dune_database
     = (\<lparr>status_code = 200, content = Book_json \<lparr>title = '''', author = '''', id_out = 1\<rparr>\<rparr>,
        \<lparr>books = [\<lparr>id_col = 1, title_col = '''', author_col = ''''\<rparr>], auto_increment = 2,
           calls = [Query_first 1, Dirty_commit 1, Refresh 1]\<rparr>)"
proof -
  have body: "BookCreate_validate (JObj [(''title'', JStr ''''), (''author'', JStr '''')])
                = Some \<lparr>title = '''', author = ''''\<rparr>"
    by (simp add: BookCreate_validate_def body_kwargs_def json_get_def)
  have post: "app segment_1 (POST_books (JObj [(''title'', JStr ''''), (''author'', JStr '''')])) empty_database
     = (\<lparr>status_code = 200, content = Book_json \<lparr>title = '''', author = '''', id_out = 1\<rparr>\<rparr>,
        \<lparr>books = [\<lparr>id_col = 1, title_col = '''', author_col = ''''\<rparr>], auto_increment = 2,
           calls = [Add_commit, Refresh 1]\<rparr>)"
    by (simp add: app_def body create_book_def add_commit_def store_string_def refresh_def fits_def
          String_length_def logged_def from_orm_def empty_database_def)
  have put: "app segment_1 (PUT_book ''1'' (JObj [(''title'', JStr ''''), (''author'', JStr '''')])) dune_database
     = (\<lparr>status_code = 200, content = Book_json \<lparr>title = '''', author = '''', id_out = 1\<rparr>\<rparr>,
        \<lparr>books = [\<lparr>id_col = 1, title_col = '''', author_col = ''''\<rparr>], auto_increment = 2,
           calls = [Query_first 1, Dirty_commit 1, Refresh 1]\<rparr>)"
    by (simp add: app_def body segment_1_def update_book_def query_first_def dirty_commit_def
          store_string_def refresh_def fits_def String_length_def logged_def from_orm_def
          dune_database_def)
  from table_ok_empty post put show ?thesis by blast
qed

subsection \<open>C7: malformed requests\<close>

text \<open>
  C7, amended. Every request whose path id does not parse as an integer, or whose body
  gives no text for \<open>title\<close> or for \<open>author\<close> (the key is missing, or its value is
  null, an array or an object), is answered with 422, and the database is returned as
  it was given: the rows, the counter and the list of session calls, so no session call
  was made. A number or a boolean is not among the values refused: the validator turns
  it into text.
\<close>

theorem malformed_request_422:
  assumes "malformed req"
  shows "app py_int req db = (\<lparr>status_code = 422, content = Validation_errors\<rparr>, db)"
proof (cases req)
  case GET_books
  with assms show ?thesis by (simp add: malformed_def)
next
  case (GET_book seg)
  with assms have "py_int seg = None"
    by (simp add: malformed_def py_int_None_iff)
  with GET_book show ?thesis by (simp add: app_def unprocessable_def)
next
  case (POST_books body)
  with assms have "BookCreate_validate body = None"
    by (simp add: malformed_def gives_no_text_validate)
  with POST_books show ?thesis by (simp add: app_def unprocessable_def)
next
  case (PUT_book seg body)
  with assms have "py_int seg = None \<or> BookCreate_validate body = None"
    using gives_no_text_validate [of body] by (auto simp: malformed_def py_int_None_iff)
  with PUT_book show ?thesis
    by (auto simp: app_def unprocessable_def split: option.splits)
next
  case (DELETE_book seg)
  with assms have "py_int seg = None"
    by (simp add: malformed_def py_int_None_iff)
  with DELETE_book show ?thesis by (simp add: app_def unprocessable_def)
qed

text \<open>
  A path id that is a word, a path id with a fraction, a body without an author, and a
  body whose title is null.
\<close>

theorem malformed_request_422_witness:
  "malformed (GET_book ''one'')
   \<and> app py_int (GET_book ''one'') dune_database
       = (\<lparr>status_code = 422, content = Validation_errors\<rparr>, dune_database)
   \<and> malformed (DELETE_book ''1.5'')
   \<and> app py_int (DELETE_book ''1.5'') dune_database
       = (\<lparr>status_code = 422, content = Validation_errors\<rparr>, dune_database)
   \<and> malformed (POST_books (JObj [(''title'', JStr ''Dune'')]))
   \<and> app py_int (POST_books (JObj [(''title'', JStr ''Dune'')])) dune_database
       = (\<lparr>status_code = 422, content = Validation_errors\<rparr>, dune_database)
   \<and> malformed (PUT_book ''1'' (JObj [(''title'', JNull), (''author'', JStr ''Herbert'')]))
   \<and> app py_int (PUT_book ''1'' (JObj [(''title'', JNull), (''author'', JStr ''Herbert'')])) dune_database
       = (\<lparr>status_code = 422, content = Validation_errors\<rparr>, dune_database)"
proof -
  have m: "malformed (GET_book ''one'')" "malformed (DELETE_book ''1.5'')"
    "malformed (POST_books (JObj [(''title'', JStr ''Dune'')]))"
    "malformed (PUT_book ''1'' (JObj [(''title'', JNull), (''author'', JStr ''Herbert'')]))"
    by (simp_all add: malformed_def path_segment_def integer_text_def groups_ok_def strip_def
          rstrip_def unsigned_def is_space_def is_digit_def gives_no_text_def body_kwargs_def
          json_get_def)
  show ?thesis
    using m malformed_request_422 [OF m(1), of dune_database]
      malformed_request_422 [OF m(2), of dune_database]
      malformed_request_422 [OF m(3), of dune_database]
      malformed_request_422 [OF m(4), of dune_database]
    by simp
qed

text \<open>
  C7 as stated fails for a title that is a number: the body gives \<open>title\<close> a non-text
  type, and the POST is answered with 200 and the book is stored, its title the numeral.
\<close>

theorem number_title_accepted_counterexample:
  "app py_int (POST_books (JObj [(''title'', JNum 7), (''author'', JStr ''Herbert'')])) empty_database
     = (\<lparr>status_code = 200, content = Book_json \<lparr>title = ''7'', author = ''Herbert'', id_out = 1\<rparr>\<rparr>,
        \<lparr>books = [\<lparr>id_col = 1, title_col = ''7'', author_col = ''Herbert''\<rparr>], auto_increment = 2,
           calls = [Add_commit, Refresh 1]\<rparr>)"
proof -
  have body: "BookCreate_validate (JObj [(''title'', JNum 7), (''author'', JStr ''Herbert'')])
                = Some \<lparr>title = ''7'', author = ''Herbert''\<rparr>"
    by (simp add: BookCreate_validate_def body_kwargs_def json_get_def str_int_def str_nat.simps
          digit_char_def max_str_digits_def)
  show ?thesis
    by (simp add: app_def body create_book_def add_commit_def store_string_def refresh_def fits_def
          String_length_def logged_def from_orm_def empty_database_def)
qed

subsection \<open>C8: the message of a delete\<close>

text \<open>
  C8. For every id that a row carries, DELETE on that id is answered with 200 and a
  message that is \<open>Book(id=\<close>, a numeral, \<open>) deleted succesfully\<close>, in this spelling;
  the numeral is the one Python writes for the id, and its value is the id.
\<close>

theorem delete_message:
  assumes "int_validator seg = Some book_id" "book_id \<in> set (ids db)"
  shows "\<exists>numeral. fst (app int_validator (DELETE_book seg) db)
           = \<lparr>status_code = 200,
              content = Message_json (''Book(id='' @ numeral @ '') deleted succesfully'')\<rparr>
         \<and> numeral = str_int book_id \<and> int_of_numeral numeral = book_id"
proof -
  from assms(2) obtain r where r: "find (\<lambda>r. id_col r = book_id) (books db) = Some r"
    using find_id_Some [of book_id "books db"] by (auto simp: ids_def)
  show ?thesis
    using assms(1) by (simp add: app_def delete_book_ok [OF r] int_of_numeral_str_int)
qed

text \<open>The scenario's fourth step, as a response: \<open>Book(id=1) deleted succesfully\<close>.\<close>

theorem delete_message_witness:
  "segment_1 ''1'' = Some 1 \<and> 1 \<in> set (ids dune_database)
   \<and> fst (app segment_1 (DELETE_book ''1'') dune_database)
       = \<lparr>status_code = 200, content = Message_json ''Book(id=1) deleted succesfully''\<rparr>"
  using delete_message [of segment_1 "''1''" 1 dune_database]
  by (simp add: segment_1_def ids_def str_int_def str_nat.simps digit_char_def)

subsection \<open>C9: the status of a create\<close>

text \<open>
  C9, amended. For every body that validates as a \<open>BookCreate\<close>, on a well-formed table,
  the POST is never answered with 201. When the title and the author have at most 255
  characters, it is answered with 200 and the \<open>BookOut\<close> with the AUTO_INCREMENT value
  as id and the title and author of the body, and the row is in the table. Whenever it
  is answered with 200, the content is a \<open>BookOut\<close> with that id and with what the
  columns hold for the title and the author of the body. The bound is needed for the
  title and author to come back as submitted: a longer value whose excess is spaces is
  stored, and returned, without them.
\<close>

theorem post_returns_200:
  assumes "BookCreate_validate body = Some book" "table_ok db"
  shows "status_code (fst (app int_validator (POST_books body) db)) \<noteq> 201
       \<and> (fits (title book) \<and> fits (author book) \<longrightarrow>
            fst (app int_validator (POST_books body) db)
              = \<lparr>status_code = 200,
                 content = Book_json \<lparr>title = title book, author = author book,
                                      id_out = auto_increment db\<rparr>\<rparr>
            \<and> \<lparr>id_col = auto_increment db, title_col = title book, author_col = author book\<rparr>
                \<in> set (books (snd (app int_validator (POST_books body) db))))
       \<and> (status_code (fst (app int_validator (POST_books body) db)) = 200 \<longrightarrow>
            (\<exists>out. content (fst (app int_validator (POST_books body) db)) = Book_json out
                 \<and> id_out out = auto_increment db
                 \<and> store_string (title book) = Some (title out)
                 \<and> store_string (author book) = Some (author out)))"
proof (cases "store_string (title book) = None \<or> store_string (author book) = None")
  case True
  then have refused: "create_book book db = (Inl DataError, logged Add_commit db)"
    by (rule create_book_refused)
  from True have "\<not> (fits (title book) \<and> fits (author book))"
    by auto
  with refused show ?thesis
    using assms(1) by (simp add: app_def)
next
  case False
  then obtain t a where s: "store_string (title book) = Some t" "store_string (author book) = Some a"
    by auto
  have fit: "fits (title book) \<Longrightarrow> t = title book" "fits (author book) \<Longrightarrow> a = author book"
    using s by simp_all
  show ?thesis
    using assms(1) fit s
    by (auto simp: app_def create_book_stored [OF assms(2) s] from_orm_def)
qed

text \<open>The scenario's first step, as a response.\<close>

theorem post_returns_200_witness:
  "BookCreate_validate dune_body = Some \<lparr>title = ''Dune'', author = ''Herbert''\<rparr>
   \<and> table_ok empty_database
   \<and> status_code (fst (app py_int (POST_books dune_body) empty_database)) \<noteq> 201
   \<and> fits ''Dune'' \<and> fits ''Herbert''
   \<and> fst (app py_int (POST_books dune_body) empty_database)
       = \<lparr>status_code = 200,
          content = Book_json \<lparr>title = ''Dune'', author = ''Herbert'', id_out = 1\<rparr>\<rparr>
   \<and> \<lparr>id_col = 1, title_col = ''Dune'', author_col = ''Herbert''\<rparr>
       \<in> set (books (snd (app py_int (POST_books dune_body) empty_database)))"
  using post_returns_200 [of dune_body "\<lparr>title = ''Dune'', author = ''Herbert''\<rparr>"
          empty_database py_int]
  by (simp add: validate_dune_body table_ok_empty fits_def String_length_def)

text \<open>
  C9 as stated fails for a title of 255 letters and a space: the body is valid, the POST
  is answered with 200, and the title of the returned book is not the submitted one.
\<close>

theorem post_trailing_space_counterexample:
  "table_ok empty_database
   \<and> fst (app py_int (POST_books (JObj [(''title'', JStr (replicate 255 (CHR ''a'') @ '' '')),
                                         (''author'', JStr ''Herbert'')])) empty_database)
       = \<lparr>status_code = 200,
          content = Book_json \<lparr>title = replicate 255 (CHR ''a''), author = ''Herbert'', id_out = 1\<rparr>\<rparr>
   \<and> replicate 255 (CHR ''a'') \<noteq> replicate 255 (CHR ''a'') @ '' ''"
proof -
  let ?t = "replicate 255 (CHR ''a'') @ '' ''"
  have body: "BookCreate_validate (JObj [(''title'', JStr ?t), (''author'', JStr ''Herbert'')])
                = Some \<lparr>title = ?t, author = ''Herbert''\<rparr>"
    by (simp add: BookCreate_validate_def body_kwargs_def json_get_def)
  have s: "store_string (title \<lparr>title = ?t, author = ''Herbert''\<rparr>) = Some (replicate 255 (CHR ''a''))"
    "store_string (author \<lparr>title = ?t, author = ''Herbert''\<rparr>) = Some ''Herbert''"
    by (simp_all add: store_string_trailing_space store_string_def fits_def String_length_def)
  have "fst (app py_int (POST_books (JObj [(''title'', JStr ?t), (''author'', JStr ''Herbert'')]))
               empty_database)
       = \<lparr>status_code = 200,
          content = Book_json \<lparr>title = replicate 255 (CHR ''a''), author = ''Herbert'', id_out = 1\<rparr>\<rparr>"
    by (simp add: app_def body create_book_stored [OF table_ok_empty s] from_orm_def)
  with table_ok_empty show ?thesis by simp
qed

subsection \<open>C10: a malformed body on an absent id\<close>

text \<open>
  C10, amended. For every PUT whose body gives no text for \<open>title\<close> or for \<open>author\<close>
  (the key is missing, or its value is null, an array or an object) and whose path id
  converts to an integer that no row carries, the answer is 422 and not 404, and the
  database is returned as it was given, so the row was never looked up. The same path
  with a body that validates is answered with the 404; a body that gives a number or a
  boolean for \<open>title\<close> or \<open>author\<close> is such a body.
\<close>

theorem put_malformed_before_not_found:
  assumes "gives_no_text body ''title'' \<or> gives_no_text body ''author''"
    and "int_validator seg = Some book_id" and "book_id \<notin> set (ids db)"
  shows "app int_validator (PUT_book seg body) db
           = (\<lparr>status_code = 422, content = Validation_errors\<rparr>, db)
       \<and> status_code (fst (app int_validator (PUT_book seg body) db)) \<noteq> 404
       \<and> (BookCreate_validate body' = Some b \<longrightarrow>
            fst (app int_validator (PUT_book seg body') db)
              = \<lparr>status_code = 404, content = Detail_json ''Book not found''\<rparr>)"
proof -
  from assms(1) have "BookCreate_validate body = None"
    by (rule gives_no_text_validate)
  with assms(2) have "app int_validator (PUT_book seg body) db
      = (\<lparr>status_code = 422, content = Validation_errors\<rparr>, db)"
    by (simp add: app_def unprocessable_def)
  moreover have "BookCreate_validate body' = Some b \<longrightarrow>
      fst (app int_validator (PUT_book seg body') db)
        = \<lparr>status_code = 404, content = Detail_json ''Book not found''\<rparr>"
    using assms(2,3) by (simp add: app_def update_book_missing)
  ultimately show ?thesis by simp
qed

theorem put_malformed_before_not_found_witness:
  "(gives_no_text (JObj [(''title'', JStr ''Dune'')]) ''title''
      \<or> gives_no_text (JObj [(''title'', JStr ''Dune'')]) ''author'')
   \<and> py_int ''1'' = Some 1 \<and> 1 \<notin> set (ids empty_database)
   \<and> app py_int (PUT_book ''1'' (JObj [(''title'', JStr ''Dune'')])) empty_database
       = (\<lparr>status_code = 422, content = Validation_errors\<rparr>, empty_database)
   \<and> status_code (fst (app py_int (PUT_book ''1'' (JObj [(''title'', JStr ''Dune'')])) empty_database))
       \<noteq> 404
   \<and> BookCreate_validate dune_body = Some \<lparr>title = ''Dune'', author = ''Herbert''\<rparr>
   \<and> fst (app py_int (PUT_book ''1'' dune_body) empty_database)
       = \<lparr>status_code = 404, content = Detail_json ''Book not found''\<rparr>"
proof -
  have g: "gives_no_text (JObj [(''title'', JStr ''Dune'')]) ''title''
      \<or> gives_no_text (JObj [(''title'', JStr ''Dune'')]) ''author''"
    by (simp add: gives_no_text_def body_kwargs_def json_get_def)
  have p: "py_int ''1'' = Some 1"
    by (simp add: py_int_def is_space_def is_digit_def digit_val_def max_str_digits_def)
  have i: "1 \<notin> set (ids empty_database)"
    by (simp add: ids_def)
  show ?thesis
    using g p i validate_dune_body
      put_malformed_before_not_found [of "JObj [(''title'', JStr ''Dune'')]" py_int "''1''" 1
        empty_database dune_body "\<lparr>title = ''Dune'', author = ''Herbert''\<rparr>"]
    by simp
qed

text \<open>
  C10 as stated fails for a title that is a number: the body gives \<open>title\<close> a non-text
  type, no row has id 1, and the PUT is answered with 404 after the row was looked up.
\<close>

theorem put_number_title_counterexample:
  "py_int ''1'' = Some 1 \<and> 1 \<notin> set (ids empty_database)
   \<and> app py_int (PUT_book ''1'' (JObj [(''title'', JNum 7), (''author'', JStr ''Herbert'')])) empty_database
       = (\<lparr>status_code = 404, content = Detail_json ''Book not found''\<rparr>,
          \<lparr>books = [], auto_increment = 1, calls = [Query_first 1]\<rparr>)"
proof -
  have body: "BookCreate_validate (JObj [(''title'', JNum 7), (''author'', JStr ''Herbert'')])
                = Some \<lparr>title = ''7'', author = ''Herbert''\<rparr>"
    by (simp add: BookCreate_validate_def body_kwargs_def json_get_def str_int_def str_nat.simps
          digit_char_def max_str_digits_def)
  have p: "py_int ''1'' = Some 1"
    by (simp add: py_int_def is_space_def is_digit_def digit_val_def max_str_digits_def)
  have i: "1 \<notin> set (ids empty_database)"
    by (simp add: ids_def)
  have r: "update_book 1 \<lparr>title = ''7'', author = ''Herbert''\<rparr> empty_database
             = (Inl (HTTPException 404 ''Book not found''), logged (Query_first 1) empty_database)"
    by (rule update_book_missing [OF i])
  have l: "logged (Query_first 1) empty_database
             = \<lparr>books = [], auto_increment = 1, calls = [Query_first 1]\<rparr>"
    by (simp add: logged_def empty_database_def)
  have "app py_int (PUT_book ''1'' (JObj [(''title'', JNum 7), (''author'', JStr ''Herbert'')]))
          empty_database
       = (\<lparr>status_code = 404, content = Detail_json ''Book not found''\<rparr>,
          \<lparr>books = [], auto_increment = 1, calls = [Query_first 1]\<rparr>)"
    by (simp add: app_def p body r l)
  with p i show ?thesis by simp
qed

end
